theory Spec2Isabelle
  imports Main
begin

section \<open>bespoke/cli: the module package of src/module/module.go\<close>

text \<open>
  The development embeds the first revision of \<^verbatim>\<open>src/module/module.go\<close> (lines 1 to 447
  of the file; the file goes on with a later revision of the same package). Go strings are
  byte strings and are modelled by \<open>string\<close>. A Go function that returns \<^verbatim>\<open>error\<close> yields
  a value of \<open>unit res\<close>; a run-time panic (index out of range, assignment to an entry of a
  nil map, \<^verbatim>\<open>regexp.MustCompile\<close> on a bad pattern) is the third alternative of \<open>res\<close>.
\<close>

subsection \<open>Results\<close>

datatype 'a res = Ok 'a | Error string | Panic string

text \<open>Indexing a Go slice: out of range is a run-time panic. A nil slice has length 0.\<close>

definition index :: "'a list \<Rightarrow> nat \<Rightarrow> 'a res" where
  "index xs i = (if i < length xs then Ok (xs ! i) else Panic ''index out of range'')"

subsection \<open>Identifiers\<close>

type_synonym URL = string
type_synonym Author = string
type_synonym Name = string
type_synonym Version = string

record ModuleIdentifier =
  Author :: Author
  Name :: Name

record StoreIdentifier =
  ModuleIdentifier :: ModuleIdentifier
  Version :: Version

text \<open>The segments of a string between the occurrences of a separator character.\<close>

primrec split_on :: "char \<Rightarrow> string \<Rightarrow> string list" where
  "split_on c [] = [] # []"
| "split_on c (x # xs) =
     (if x = c then [] # split_on c xs
      else (case split_on c xs of [] \<Rightarrow> [x] # [] | y # ys \<Rightarrow> (x # y) # ys))"

text \<open>
  \<^verbatim>\<open>moduleIdentifierRe = ^(?<author>[^/]+)/(?<name>[^/]+)$\<close>: the whole string is two
  non-empty segments around one slash. \<^verbatim>\<open>FindStringSubmatch\<close> returns the whole match
  followed by the groups, or nil (here \<open>[]\<close>) when the pattern does not match.
\<close>

definition moduleIdentifierRe_FindStringSubmatch :: "string \<Rightarrow> string list" where
  "moduleIdentifierRe_FindStringSubmatch s =
     (case split_on CHR ''/'' s of
        [author, name] \<Rightarrow> if author \<noteq> [] \<and> name \<noteq> [] then [s, author, name] else []
      | _ \<Rightarrow> [])"

text \<open>
  \<^verbatim>\<open>storeIdentifierRe = ^(?<identifier>[^/]+/[^/]+)/(?<version>[^/]*)$\<close>: three segments,
  the first two non-empty, the last possibly empty.
\<close>

definition storeIdentifierRe_FindStringSubmatch :: "string \<Rightarrow> string list" where
  "storeIdentifierRe_FindStringSubmatch s =
     (case split_on CHR ''/'' s of
        [author, name, version] \<Rightarrow>
          if author \<noteq> [] \<and> name \<noteq> [] then [s, author @ ''/'' @ name, version] else []
      | _ \<Rightarrow> [])"

text \<open>
  \<^verbatim>\<open>NewModuleIdentifier\<close> reads \<^verbatim>\<open>parts[0]\<close> and \<^verbatim>\<open>parts[1]\<close>: the whole match and the
  first group. It has no error result; a failed match leaves \<^verbatim>\<open>parts\<close> nil and the first
  index panics.
\<close>

definition NewModuleIdentifier :: "string \<Rightarrow> ModuleIdentifier res" where
  "NewModuleIdentifier identifier =
     (let parts = moduleIdentifierRe_FindStringSubmatch identifier in
      case index parts 0 of
        Panic p \<Rightarrow> Panic p
      | Error e \<Rightarrow> Error e
      | Ok p0 \<Rightarrow>
          (case index parts 1 of
             Panic p \<Rightarrow> Panic p
           | Error e \<Rightarrow> Error e
           | Ok p1 \<Rightarrow> Ok \<lparr>Author = p0, Name = p1\<rparr>))"

definition NewStoreIdentifier :: "string \<Rightarrow> StoreIdentifier res" where
  "NewStoreIdentifier identifier =
     (let parts = storeIdentifierRe_FindStringSubmatch identifier in
      case index parts 0 of
        Panic p \<Rightarrow> Panic p
      | Error e \<Rightarrow> Error e
      | Ok p0 \<Rightarrow>
          (case NewModuleIdentifier p0 of
             Panic p \<Rightarrow> Panic p
           | Error e \<Rightarrow> Error e
           | Ok mi \<Rightarrow>
               (case index parts 1 of
                  Panic p \<Rightarrow> Panic p
                | Error e \<Rightarrow> Error e
                | Ok p1 \<Rightarrow> Ok \<lparr>ModuleIdentifier = mi, Version = p1\<rparr>)))"

subsection \<open>Module metadata\<close>

record Entries =
  Js :: string
  Css :: string
  Mixin :: string

record Metadata =
  md_Name :: string
  md_Version :: string
  md_Authors :: "string list"
  md_Description :: string
  md_Tags :: "string list"
  md_Entries :: Entries
  md_Dependencies :: "string list"
  md_SpotifyVersions :: string

text \<open>\<^verbatim>\<open>m.Authors[0]\<close>: a panic when the list of authors is empty.\<close>

definition getAuthor :: "Metadata \<Rightarrow> string res" where
  "getAuthor m = index (md_Authors m) 0"

definition getModuleIdentifier :: "Metadata \<Rightarrow> ModuleIdentifier res" where
  "getModuleIdentifier m =
     (case getAuthor m of
        Panic p \<Rightarrow> Panic p
      | Error e \<Rightarrow> Error e
      | Ok a \<Rightarrow> Ok \<lparr>Author = a, Name = md_Name m\<rparr>)"

definition getStoreIdentifier :: "Metadata \<Rightarrow> StoreIdentifier res" where
  "getStoreIdentifier m =
     (case getModuleIdentifier m of
        Panic p \<Rightarrow> Panic p
      | Error e \<Rightarrow> Error e
      | Ok mi \<Rightarrow> Ok \<lparr>ModuleIdentifier = mi, Version = md_Version m\<rparr>)"

subsection \<open>Versioned GitHub paths\<close>

text \<open>
  \<^verbatim>\<open>GithubPathVersion\<close> is a struct of four strings, the first (\<^verbatim>\<open>__type\<close> in the source)
  being the discriminator; the fields a literal leaves out are empty strings.
\<close>

record GithubPathVersion =
  type_tag :: string
  commit :: string
  tag :: string
  branch :: string

record VersionedGithubPath =
  owner :: string
  repo :: string
  version :: GithubPathVersion
  path :: string

definition getRepoArchiveLink :: "VersionedGithubPath \<Rightarrow> string" where
  "getRepoArchiveLink ghp =
     (let url = ''https://github.com/'' @ owner ghp @ ''/'' @ repo ghp @ ''/archive/'';
          url = (if type_tag (version ghp) = ''commit'' then url @ commit (version ghp)
                 else if type_tag (version ghp) = ''tag''
                   then url @ ''refs/tags/'' @ tag (version ghp)
                 else if type_tag (version ghp) = ''branch''
                   then url @ ''refs/heads/'' @ branch (version ghp)
                 else url)
      in url @ ''.tar.gz'')"

text \<open>
  \<^verbatim>\<open>githubRawRe\<close> is
  \<^verbatim>\<open>https://raw.githubusercontent.com/(?<owner>[^/]+)/(?<repo>[^/]+)/(?<version>[^/]+)/(?<dirname>.*?)/?(?<basename>[^/])+$\<close>.
  It is anchored at the end only. At a given start the prefix (whose two dots stand for any
  character but a newline, as \<open>strip_prefix\<close> reads them) is followed by three
  non-empty slash-free segments, a slash, and a remainder that ends in a non-empty
  slash-free segment; the lazy \<^verbatim>\<open>dirname\<close> is the remainder up to its last slash (the
  empty string when it has none) and cannot hold a newline, which \<^verbatim>\<open>.\<close> does not match;
  the repeated group \<^verbatim>\<open>basename\<close> keeps its last iteration, the final character (a byte
  here; the program does not read this group). Where a pattern reads one character the
  model reads one byte, as for ASCII text.
\<close>

fun strip_prefix :: "string \<Rightarrow> string \<Rightarrow> string option" where
  "strip_prefix [] s = Some s"
| "strip_prefix (p # ps) [] = None"
| "strip_prefix (p # ps) (c # cs) =
     (if p = c \<or> (p = CHR ''.'' \<and> c \<noteq> CHR 0x0A) then strip_prefix ps cs else None)"

fun join_slash :: "string list \<Rightarrow> string" where
  "join_slash [] = []"
| "join_slash [x] = x"
| "join_slash (x # y # ys) = x @ ''/'' @ join_slash (y # ys)"

definition githubRawRe_match_here :: "string \<Rightarrow> string list" where
  "githubRawRe_match_here s =
     (case strip_prefix ''https://raw.githubusercontent.com/'' s of
        None \<Rightarrow> []
      | Some rest \<Rightarrow>
          (case split_on CHR ''/'' rest of
             ow # rp # v # segs \<Rightarrow>
               if ow \<noteq> [] \<and> rp \<noteq> [] \<and> v \<noteq> [] \<and> segs \<noteq> [] \<and> last segs \<noteq> []
                  \<and> CHR 0x0A \<notin> set (join_slash (butlast segs))
               then [s, ow, rp, v, join_slash (butlast segs), [last (last segs)]]
               else []
           | _ \<Rightarrow> []))"

text \<open>The leftmost start at which the pattern matches.\<close>

fun githubRawRe_FindStringSubmatch :: "string \<Rightarrow> string list" where
  "githubRawRe_FindStringSubmatch [] = []"
| "githubRawRe_FindStringSubmatch (c # cs) =
     (if githubRawRe_match_here (c # cs) \<noteq> [] then githubRawRe_match_here (c # cs)
      else githubRawRe_FindStringSubmatch cs)"

text \<open>
  \<^verbatim>\<open>url.QueryUnescape\<close> of the Go library: \<^verbatim>\<open>%XY\<close> with two hexadecimal digits is the
  byte they denote, \<^verbatim>\<open>+\<close> is a space, and a \<^verbatim>\<open>%\<close> not followed by two hexadecimal digits
  is an error.
\<close>

definition ishex :: "char \<Rightarrow> bool" where
  "ishex c = (let n = of_char c :: nat in
     (48 \<le> n \<and> n \<le> 57) \<or> (97 \<le> n \<and> n \<le> 102) \<or> (65 \<le> n \<and> n \<le> 70))"

definition unhex :: "char \<Rightarrow> nat" where
  "unhex c = (let n = of_char c :: nat in
     if 48 \<le> n \<and> n \<le> 57 then n - 48
     else if 97 \<le> n \<and> n \<le> 102 then n - 97 + 10
     else if 65 \<le> n \<and> n \<le> 70 then n - 65 + 10
     else 0)"

fun QueryUnescape :: "string \<Rightarrow> string res" where
  "QueryUnescape [] = Ok []"
| "QueryUnescape (c # cs) =
     (if c = CHR ''%'' then
        (case cs of
           h # l # rest \<Rightarrow>
             if ishex h \<and> ishex l then
               (case QueryUnescape rest of
                  Ok t \<Rightarrow> Ok (char_of (unhex h * 16 + unhex l) # t)
                | Error e \<Rightarrow> Error e
                | Panic p \<Rightarrow> Panic p)
             else Error ''invalid URL escape''
         | _ \<Rightarrow> Error ''invalid URL escape'')
      else
        (case QueryUnescape cs of
           Ok t \<Rightarrow> Ok ((if c = CHR ''+'' then CHR '' '' else c) # t)
         | Error e \<Rightarrow> Error e
         | Panic p \<Rightarrow> Panic p))"

subsection \<open>What the program is run in\<close>

text \<open>
  The network, the Go library and the failures of the operating system are parameters:
  \<open>http_Get\<close> is \<^verbatim>\<open>http.Get\<close> (\<open>Inl\<close> a transport error, \<open>Inr\<close> a response of any status
  code), \<open>ListBranches\<close> is the branch listing of the GitHub client reduced to the branch
  names, \<open>json_Decode_Metadata\<close> decodes a metadata document, \<open>regexp_Compiles\<close> says
  whether \<^verbatim>\<open>regexp.MustCompile\<close> accepts a pattern, \<open>filepath_Join\<close> and \<open>path_Join\<close> are
  the two \<^verbatim>\<open>Join\<close> functions, \<open>ConfigPath\<close> is \<^verbatim>\<open>paths.ConfigPath\<close>, and \<open>WriteFile_error\<close>
  and \<open>RemoveAll_error\<close> are the errors, if any, of \<^verbatim>\<open>os.WriteFile\<close> and \<^verbatim>\<open>os.RemoveAll\<close>.
  \<open>UnTarGZ_outcome body re dest\<close> is what an extraction returns and whether it wrote
  anything under \<open>dest\<close>.
\<close>

record HttpResponse =
  StatusCode :: nat
  Body :: string

record env =
  ConfigPath :: string
  filepath_Join :: "string list \<Rightarrow> string"
  path_Join :: "string list \<Rightarrow> string"
  http_Get :: "URL \<Rightarrow> string + HttpResponse"
  ListBranches :: "string \<Rightarrow> string \<Rightarrow> string + string list"
  json_Decode_Metadata :: "string \<Rightarrow> string + Metadata"
  regexp_Compiles :: "string \<Rightarrow> bool"
  UnTarGZ_outcome :: "string \<Rightarrow> string \<Rightarrow> string \<Rightarrow> string option \<times> bool"
  WriteFile_error :: "string option"
  RemoveAll_error :: "string option"

definition modulesFolder :: "env \<Rightarrow> string" where
  "modulesFolder E = filepath_Join E [ConfigPath E, ''modules'']"

definition storeFolder :: "env \<Rightarrow> string" where
  "storeFolder E = filepath_Join E [ConfigPath E, ''store'']"

definition vaultPath :: "env \<Rightarrow> string" where
  "vaultPath E = filepath_Join E [modulesFolder E, ''vault.json'']"

definition mi_toPath :: "env \<Rightarrow> ModuleIdentifier \<Rightarrow> string" where
  "mi_toPath E mi = path_Join E [Author mi, Name mi]"

definition mi_toFilePath :: "env \<Rightarrow> ModuleIdentifier \<Rightarrow> string" where
  "mi_toFilePath E mi = filepath_Join E [modulesFolder E, Author mi, Name mi]"

definition si_toPath :: "env \<Rightarrow> StoreIdentifier \<Rightarrow> string" where
  "si_toPath E si =
     filepath_Join E [Author (ModuleIdentifier si), Name (ModuleIdentifier si), Version si]"

definition si_toFilePath :: "env \<Rightarrow> StoreIdentifier \<Rightarrow> string" where
  "si_toFilePath E si =
     filepath_Join E
       [storeFolder E, Author (ModuleIdentifier si), Name (ModuleIdentifier si), Version si]"

subsection \<open>The vault: on disk and in memory\<close>

record MetadataURL =
  Local :: URL
  Remote :: URL

text \<open>
  The JSON document of the vault file: an object by author, then by name, of the fields
  \<^verbatim>\<open>enabled\<close> and \<^verbatim>\<open>metadatas\<close>; a missing or null \<^verbatim>\<open>metadatas\<close> is \<open>None\<close>.
\<close>

record ByVersionsJson =
  json_enabled :: Version
  json_metadatas :: "(Version \<rightharpoonup> MetadataURL) option"

type_synonym VaultJson = "Author \<rightharpoonup> (Name \<rightharpoonup> ByVersionsJson)"

text \<open>
  In memory \<^verbatim>\<open>ByVersions\<close> is a struct of a string and a map, and a Go map is a reference:
  a copy of the struct shares the map and has a string of its own. The maps \<^verbatim>\<open>Metadatas\<close>
  therefore live in a store. The decoder allocates one map for each module of the document
  and nothing moves a map to another module, so the address of a map is the module
  \<open>(author, name)\<close> it was allocated for; a nil map is \<open>None\<close>. The maps by author and by
  name are only ever read, so they are values; reading a nil one finds nothing.
\<close>

type_synonym ref = "Author \<times> Name"

record ByVersions =
  Enabled :: Version
  Metadatas :: "ref option"

record Vault =
  Modules :: "Author \<rightharpoonup> (Name \<rightharpoonup> ByVersions)"

type_synonym heap = "ref \<Rightarrow> (Version \<rightharpoonup> MetadataURL)"

definition json_Decode_Vault :: "VaultJson \<Rightarrow> Vault \<times> heap" where
  "json_Decode_Vault d =
     (\<lparr>Modules = (\<lambda>a. case d a of
          None \<Rightarrow> None
        | Some ns \<Rightarrow> Some (\<lambda>n. case ns n of
            None \<Rightarrow> None
          | Some bv \<Rightarrow> Some \<lparr>Enabled = json_enabled bv,
              Metadatas = (case json_metadatas bv of None \<Rightarrow> None | Some m \<Rightarrow> Some (a, n))\<rparr>))\<rparr>,
      (\<lambda>(a, n). case d a of
          None \<Rightarrow> Map.empty
        | Some ns \<Rightarrow> (case ns n of
            None \<Rightarrow> Map.empty
          | Some bv \<Rightarrow> (case json_metadatas bv of None \<Rightarrow> Map.empty | Some m \<Rightarrow> m))))"

definition json_Marshal_Vault :: "Vault \<Rightarrow> heap \<Rightarrow> VaultJson" where
  "json_Marshal_Vault v h =
     (\<lambda>a. case Modules v a of
        None \<Rightarrow> None
      | Some ns \<Rightarrow> Some (\<lambda>n. case ns n of
          None \<Rightarrow> None
        | Some bv \<Rightarrow> Some \<lparr>json_enabled = Enabled bv,
            json_metadatas = (case Metadatas bv of None \<Rightarrow> None | Some r \<Rightarrow> Some (h r))\<rparr>))"

text \<open>
  The file system: the vault file (absent, not a JSON document of the vault, or such a
  document), the number of times the vault file has been written, the entries at the
  module paths and store paths, and the extractions made so far, each with the body read,
  the pattern and the destination.
\<close>

datatype node = Symlink string | Directory

datatype VaultFile = NoFile | Undecodable string | Json VaultJson

record world =
  vault_file :: VaultFile
  vault_writes :: nat
  fs :: "string \<rightharpoonup> node"
  untar_calls :: "(string \<times> string \<times> string) list"

text \<open>
  \<^verbatim>\<open>os.Symlink\<close> fails when the new name exists. \<^verbatim>\<open>os.Remove\<close> removes a link; a directory
  entry stands for a directory with content, which it does not remove.
\<close>

definition os_Symlink :: "string \<Rightarrow> string \<Rightarrow> world \<Rightarrow> string option \<times> world" where
  "os_Symlink oldname newname w =
     (case fs w newname of
        Some x \<Rightarrow> (Some ''file exists'', w)
      | None \<Rightarrow> (None, w\<lparr>fs := (fs w)(newname \<mapsto> Symlink oldname)\<rparr>))"

definition os_Remove :: "string \<Rightarrow> world \<Rightarrow> string option \<times> world" where
  "os_Remove name w =
     (case fs w name of
        None \<Rightarrow> (Some ''no such file or directory'', w)
      | Some Directory \<Rightarrow> (Some ''directory not empty'', w)
      | Some (Symlink t) \<Rightarrow> (None, w\<lparr>fs := (fs w)(name := None)\<rparr>))"

definition os_MkdirAll :: "string \<Rightarrow> world \<Rightarrow> string option \<times> world" where
  "os_MkdirAll name w =
     (case fs w name of
        None \<Rightarrow> (None, w\<lparr>fs := (fs w)(name \<mapsto> Directory)\<rparr>)
      | Some Directory \<Rightarrow> (None, w)
      | Some (Symlink t) \<Rightarrow> (Some ''not a directory'', w))"

definition os_RemoveAll :: "env \<Rightarrow> string \<Rightarrow> world \<Rightarrow> unit res \<times> world" where
  "os_RemoveAll E name w =
     (case RemoveAll_error E of
        Some e \<Rightarrow> (Error e, w)
      | None \<Rightarrow> (Ok (), w\<lparr>fs := (fs w)(name := None)\<rparr>))"

text \<open>\<^verbatim>\<open>createSymlink\<close> and \<^verbatim>\<open>destroySymlink\<close> drop the error of the system call.\<close>

definition createSymlink :: "env \<Rightarrow> StoreIdentifier \<Rightarrow> world \<Rightarrow> world" where
  "createSymlink E identifier w =
     snd (os_Symlink (si_toFilePath E identifier)
            (mi_toFilePath E (ModuleIdentifier identifier)) w)"

definition destroySymlink :: "env \<Rightarrow> ModuleIdentifier \<Rightarrow> world \<Rightarrow> world" where
  "destroySymlink E identifier w = snd (os_Remove (mi_toFilePath E identifier) w)"

subsection \<open>Vault operations\<close>

text \<open>
  \<^verbatim>\<open>getAllModuleVersions\<close> returns the struct \<^verbatim>\<open>ByVersions\<close> by value, with a flag: the
  caller holds a copy of \<^verbatim>\<open>Enabled\<close> and the address of the map.
\<close>

definition getAllModuleVersions :: "Vault \<Rightarrow> ModuleIdentifier \<Rightarrow> ByVersions \<times> bool" where
  "getAllModuleVersions v identifier =
     (case Modules v (Author identifier) of
        None \<Rightarrow> (\<lparr>Enabled = [], Metadatas = None\<rparr>, False)
      | Some names \<Rightarrow>
          (case names (Name identifier) of
             None \<Rightarrow> (\<lparr>Enabled = [], Metadatas = None\<rparr>, False)
           | Some versions \<Rightarrow> (versions, True)))"

text \<open>Reading a Go map, nil or not, at a key.\<close>

definition map_get :: "heap \<Rightarrow> ref option \<Rightarrow> Version \<Rightarrow> MetadataURL option" where
  "map_get h m k = (case m of None \<Rightarrow> None | Some r \<Rightarrow> h r k)"

definition getEnabledModule :: "Vault \<Rightarrow> heap \<Rightarrow> ModuleIdentifier \<Rightarrow> MetadataURL \<times> bool" where
  "getEnabledModule v h identifier =
     (let (versions, ok) = getAllModuleVersions v identifier in
      if \<not> ok then (\<lparr>Local = [], Remote = []\<rparr>, False)
      else (case map_get h (Metadatas versions) (Enabled versions) of
              None \<Rightarrow> (\<lparr>Local = [], Remote = []\<rparr>, False)
            | Some module \<Rightarrow> (module, True)))"

text \<open>
  \<^verbatim>\<open>setEnabledModule\<close> (no function of the package calls it) assigns to the copy and
  makes or removes the link.
\<close>

definition setEnabledModule ::
  "env \<Rightarrow> Vault \<Rightarrow> StoreIdentifier \<Rightarrow> world \<Rightarrow> bool \<times> world" where
  "setEnabledModule E v identifier w =
     (let (versions, ok) = getAllModuleVersions v (ModuleIdentifier identifier) in
      if \<not> ok then (False, w)
      else
        (let versions = versions\<lparr>Enabled := Version identifier\<rparr> in
         if length (Enabled versions) = 0
         then (True, destroySymlink E (ModuleIdentifier identifier) w)
         else (True, createSymlink E identifier w)))"

definition getModule :: "Vault \<Rightarrow> heap \<Rightarrow> Metadata \<Rightarrow> (MetadataURL \<times> bool) res" where
  "getModule v h m =
     (case getModuleIdentifier m of
        Panic p \<Rightarrow> Panic p
      | Error e \<Rightarrow> Error e
      | Ok mi \<Rightarrow>
          (let (versions, ok) = getAllModuleVersions v mi in
           if \<not> ok then Ok (\<lparr>Local = [], Remote = []\<rparr>, False)
           else (case map_get h (Metadatas versions) (md_Version m) of
                   None \<Rightarrow> Ok (\<lparr>Local = [], Remote = []\<rparr>, False)
                 | Some module \<Rightarrow> Ok (module, True))))"

text \<open>
  \<^verbatim>\<open>setModule\<close> writes through the map of the copy, that is into the map of the vault;
  writing into a nil map panics.
\<close>

definition setModule :: "Vault \<Rightarrow> heap \<Rightarrow> Metadata \<Rightarrow> MetadataURL \<Rightarrow> bool res \<times> heap" where
  "setModule v h m module =
     (if length (md_Version m) = 0 then (Ok False, h)
      else
        (case getModuleIdentifier m of
           Panic p \<Rightarrow> (Panic p, h)
         | Error e \<Rightarrow> (Error e, h)
         | Ok mi \<Rightarrow>
             (let (versions, ok) = getAllModuleVersions v mi in
              if \<not> ok then (Ok False, h)
              else (case Metadatas versions of
                      None \<Rightarrow> (Panic ''assignment to entry in nil map'', h)
                    | Some r \<Rightarrow> (Ok True, h(r := (h r)(md_Version m \<mapsto> module)))))))"

text \<open>
  \<^verbatim>\<open>GetVault\<close> returns the zero vault with the error when the file cannot be opened; every
  caller returns on an error, so the vault left by a failed decoding is not modelled.
\<close>

definition GetVault :: "env \<Rightarrow> world \<Rightarrow> (Vault \<times> heap) \<times> string option" where
  "GetVault E w =
     (case vault_file w of
        NoFile \<Rightarrow>
          ((\<lparr>Modules = Map.empty\<rparr>, (\<lambda>r. Map.empty)),
           Some (''open '' @ vaultPath E @ '': no such file or directory''))
      | Undecodable e \<Rightarrow> ((\<lparr>Modules = Map.empty\<rparr>, (\<lambda>r. Map.empty)), Some e)
      | Json d \<Rightarrow> (json_Decode_Vault d, None))"

text \<open>
  \<^verbatim>\<open>SetVault\<close>: \<^verbatim>\<open>json.Marshal\<close> cannot fail on a vault (strings and maps by strings), the
  result of \<^verbatim>\<open>os.MkdirAll\<close> is dropped, and a failed \<^verbatim>\<open>os.WriteFile\<close> is taken to leave the
  file as it was.
\<close>

definition SetVault :: "env \<Rightarrow> Vault \<Rightarrow> heap \<Rightarrow> world \<Rightarrow> unit res \<times> world" where
  "SetVault E vault h w =
     (let w = snd (os_MkdirAll (modulesFolder E) w) in
      case WriteFile_error E of
        Some e \<Rightarrow> (Error e, w)
      | None \<Rightarrow>
          (Ok (), w\<lparr>vault_file := Json (json_Marshal_Vault vault h),
                    vault_writes := Suc (vault_writes w)\<rparr>))"

definition MutateVault ::
  "env \<Rightarrow> (Vault \<Rightarrow> heap \<Rightarrow> world \<Rightarrow> bool res \<times> heap \<times> world) \<Rightarrow> world \<Rightarrow> unit res \<times> world" where
  "MutateVault E mutate w =
     (let ((vault, h), err) = GetVault E w in
      case err of
        Some e \<Rightarrow> (Error e, w)
      | None \<Rightarrow>
          (case mutate vault h w of
             (Panic p, h, w) \<Rightarrow> (Panic p, w)
           | (Error e, h, w) \<Rightarrow> (Error e, w)
           | (Ok ok, h, w) \<Rightarrow>
               if \<not> ok then (Error ''failed to mutate vault'', w)
               else SetVault E vault h w))"

definition AddModuleInVault :: "env \<Rightarrow> Metadata \<Rightarrow> MetadataURL \<Rightarrow> world \<Rightarrow> unit res \<times> world" where
  "AddModuleInVault E metadata module w =
     MutateVault E
       (\<lambda>vault h w. case setModule vault h metadata module of (r, h) \<Rightarrow> (r, h, w)) w"

text \<open>
  \<^verbatim>\<open>ToggleModuleInVault\<close>: \<^verbatim>\<open>modules\<close> is the copy that \<^verbatim>\<open>getAllModuleVersions\<close> returned;
  the assignments to \<^verbatim>\<open>modules.Enabled\<close> change the copy, and \<^verbatim>\<open>SetVault\<close> is given the vault.
\<close>

definition ToggleModuleInVault :: "env \<Rightarrow> StoreIdentifier \<Rightarrow> bool \<Rightarrow> world \<Rightarrow> unit res \<times> world" where
  "ToggleModuleInVault E identifier enabled w =
     (let ((vault, h), err) = GetVault E w in
      case err of
        Some e \<Rightarrow> (Error e, w)
      | None \<Rightarrow>
          (let (modules, ok) = getAllModuleVersions vault (ModuleIdentifier identifier) in
           if \<not> ok then (Error (''no modules with identifier '' @ si_toPath E identifier), w)
           else if enabled then
             (let modules = modules\<lparr>Enabled := Version identifier\<rparr>;
                  w = createSymlink E identifier w
              in SetVault E vault h w)
           else if Enabled modules = Version identifier then
             (let modules = modules\<lparr>Enabled := []\<rparr>;
                  w = destroySymlink E (ModuleIdentifier identifier) w
              in SetVault E vault h w)
           else (Ok (), w)))"

text \<open>
  \<^verbatim>\<open>RemoveModuleInVault\<close>: the assignment to \<^verbatim>\<open>modules.Enabled\<close> changes the copy; \<^verbatim>\<open>delete\<close>
  goes through the map of the copy, that is the map of the vault, and does nothing on a
  nil map or a missing key.
\<close>

definition RemoveModuleInVault :: "env \<Rightarrow> StoreIdentifier \<Rightarrow> world \<Rightarrow> unit res \<times> world" where
  "RemoveModuleInVault E identifier w =
     MutateVault E
       (\<lambda>vault h w.
          let (modules, ok) = getAllModuleVersions vault (ModuleIdentifier identifier) in
          if \<not> ok then (Ok False, h, w)
          else
            (let (modules, w) =
               (if Enabled modules = Version identifier
                then (modules\<lparr>Enabled := []\<rparr>,
                      destroySymlink E (ModuleIdentifier identifier) w)
                else (modules, w));
                 h = (case Metadatas modules of
                        None \<Rightarrow> h
                      | Some r \<Rightarrow> h(r := (h r)(Version identifier := None)))
             in (Ok True, h, w))) w"

definition deleteModuleInStore :: "env \<Rightarrow> StoreIdentifier \<Rightarrow> world \<Rightarrow> unit res \<times> world" where
  "deleteModuleInStore E identifier w = os_RemoveAll E (si_toFilePath E identifier) w"

definition DeleteModule :: "env \<Rightarrow> StoreIdentifier \<Rightarrow> world \<Rightarrow> unit res \<times> world" where
  "DeleteModule E identifier w =
     (case RemoveModuleInVault E identifier w of
        (Panic p, w) \<Rightarrow> (Panic p, w)
      | (Error e, w) \<Rightarrow> (Error e, w)
      | (Ok u, w) \<Rightarrow> deleteModuleInStore E identifier w)"

subsection \<open>Resolving, downloading, installing\<close>

definition parseMetadata :: "env \<Rightarrow> string \<Rightarrow> Metadata res" where
  "parseMetadata E r = (case json_Decode_Metadata E r of Inl e \<Rightarrow> Error e | Inr m \<Rightarrow> Ok m)"

definition fetchRemoteMetadata :: "env \<Rightarrow> URL \<Rightarrow> Metadata res" where
  "fetchRemoteMetadata E metadataURL =
     (case http_Get E metadataURL of
        Inl e \<Rightarrow> Error e
      | Inr res \<Rightarrow> parseMetadata E (Body res))"

text \<open>
  \<^verbatim>\<open>parseGithubRawLink\<close> lists the branches before it looks at the reference, and returns
  on an error of the listing. A match has six elements, so the four indices are in range.
\<close>

definition parseGithubRawLink :: "env \<Rightarrow> URL \<Rightarrow> VersionedGithubPath res" where
  "parseGithubRawLink E metadataURL =
     (let submatches = githubRawRe_FindStringSubmatch metadataURL in
      if submatches = [] then Error ''URL cannot be parsed''
      else
        (let ow = submatches ! 1; rp = submatches ! 2; v = submatches ! 3;
             pth = submatches ! 4
         in case ListBranches E ow rp of
              Inl e \<Rightarrow> Error e
            | Inr branchNames \<Rightarrow>
                if length v = 40 then
                  Ok \<lparr>owner = ow, repo = rp,
                      version = \<lparr>type_tag = ''commit'', commit = v, tag = [], branch = []\<rparr>,
                      path = pth\<rparr>
                else if v \<in> set branchNames then
                  Ok \<lparr>owner = ow, repo = rp,
                      version = \<lparr>type_tag = ''branch'', commit = [], tag = [], branch = v\<rparr>,
                      path = pth\<rparr>
                else
                  (case QueryUnescape v of
                     Panic p \<Rightarrow> Panic p
                   | Error e \<Rightarrow> Error e
                   | Ok t \<Rightarrow>
                       Ok \<lparr>owner = ow, repo = rp,
                           version = \<lparr>type_tag = ''tag'', commit = [], tag = t, branch = []\<rparr>,
                           path = pth\<rparr>)))"

text \<open>
  Modelled from the spec: \<^verbatim>\<open>archive.UnTarGZ\<close>, of the package \<^verbatim>\<open>bespoke/archive\<close>, is not
  among the sources. By section 4.4 it unpacks the entries that match the pattern under
  the destination, fails with an error when a step of the extraction fails, and does not
  roll back what it has written. Here it records the call, returns what the environment
  says of this body, pattern and destination, and the destination exists afterwards when
  something was written.
\<close>

definition UnTarGZ :: "env \<Rightarrow> string \<Rightarrow> string \<Rightarrow> string \<Rightarrow> world \<Rightarrow> unit res \<times> world" where
  "UnTarGZ E body srcRe dest w =
     (let (err, wrote) = UnTarGZ_outcome E body srcRe dest;
          w = w\<lparr>untar_calls := untar_calls w @ [(body, srcRe, dest)],
                fs := (if wrote then (fs w)(dest \<mapsto> Directory) else fs w)\<rparr>
      in case err of None \<Rightarrow> (Ok (), w) | Some e \<Rightarrow> (Error e, w))"

text \<open>
  \<^verbatim>\<open>downloadModuleInStore\<close> checks the error of \<^verbatim>\<open>http.Get\<close> and nothing of the response
  but its body; \<^verbatim>\<open>regexp.MustCompile\<close> panics on a pattern that does not compile.
\<close>

definition downloadModuleInStore :: "env \<Rightarrow> URL \<Rightarrow> StoreIdentifier \<Rightarrow> world \<Rightarrow> unit res \<times> world" where
  "downloadModuleInStore E metadataURL storeIdentifier w =
     (case parseGithubRawLink E metadataURL of
        Panic p \<Rightarrow> (Panic p, w)
      | Error e \<Rightarrow> (Error e, w)
      | Ok githubPath \<Rightarrow>
          (case http_Get E (getRepoArchiveLink githubPath) of
             Inl e \<Rightarrow> (Error e, w)
           | Inr res \<Rightarrow>
               (let srcRe = ''^[^/]+/'' @ path githubPath @ ''(.*)'' in
                if \<not> regexp_Compiles E srcRe then (Panic ''regexp: Compile'', w)
                else UnTarGZ E (Body res) srcRe (si_toFilePath E storeIdentifier) w)))"

definition InstallModuleMURL :: "env \<Rightarrow> URL \<Rightarrow> world \<Rightarrow> unit res \<times> world" where
  "InstallModuleMURL E metadataURL w =
     (case fetchRemoteMetadata E metadataURL of
        Panic p \<Rightarrow> (Panic p, w)
      | Error e \<Rightarrow> (Error e, w)
      | Ok metadata \<Rightarrow>
          (case getStoreIdentifier metadata of
             Panic p \<Rightarrow> (Panic p, w)
           | Error e \<Rightarrow> (Error e, w)
           | Ok storeIdentifier \<Rightarrow>
               (case downloadModuleInStore E metadataURL storeIdentifier w of
                  (Panic p, w) \<Rightarrow> (Panic p, w)
                | (Error e, w) \<Rightarrow> (Error e, w)
                | (Ok u, w) \<Rightarrow>
                    (case getModuleIdentifier metadata of
                       Panic p \<Rightarrow> (Panic p, w)
                     | Error e \<Rightarrow> (Error e, w)
                     | Ok moduleIdentifier \<Rightarrow>
                         AddModuleInVault E metadata
                           \<lparr>Local = ''/modules/'' @ mi_toPath E moduleIdentifier
                                      @ ''/metadata.json'',
                            Remote = metadataURL\<rparr> w))))"

subsection \<open>What is observed of the vault file\<close>

definition persisted_module :: "world \<Rightarrow> ModuleIdentifier \<Rightarrow> ByVersionsJson option" where
  "persisted_module w mi =
     (case vault_file w of
        Json d \<Rightarrow> (case d (Author mi) of None \<Rightarrow> None | Some ns \<Rightarrow> ns (Name mi))
      | NoFile \<Rightarrow> None
      | Undecodable e \<Rightarrow> None)"

text \<open>Whether a module of the vault file holds a record for a version.\<close>

definition has_record :: "ByVersionsJson \<Rightarrow> Version \<Rightarrow> bool" where
  "has_record bv v = (case json_metadatas bv of None \<Rightarrow> False | Some m \<Rightarrow> v \<in> dom m)"

text \<open>Invariant I1 of a module: nothing is enabled, or the enabled version has a record.\<close>

definition I1 :: "ByVersionsJson \<Rightarrow> bool" where
  "I1 bv = (json_enabled bv = [] \<or> has_record bv (json_enabled bv))"

text \<open>
  What adding a record returns when the vault file is missing or unreadable, or when
  \<^verbatim>\<open>setModule\<close> refuses the record: the error of \<^verbatim>\<open>GetVault\<close>, or the error of
  \<^verbatim>\<open>MutateVault\<close> for a mutation that returned false.
\<close>

definition add_refused :: "env \<Rightarrow> world \<Rightarrow> unit res" where
  "add_refused E w =
     (case vault_file w of
        NoFile \<Rightarrow> Error (''open '' @ vaultPath E @ '': no such file or directory'')
      | Undecodable e \<Rightarrow> Error e
      | Json d \<Rightarrow> Error ''failed to mutate vault'')"

subsection \<open>A concrete run\<close>

text \<open>
  An environment in which everything works: the metadata of \<open>acme/widgets\<close> version
  \<open>1.0.0\<close> is served at a URL whose reference has 40 hexadecimal digits, the archive of
  that commit is served, the repository has the branch \<open>main\<close>, and paths are joined with
  slashes.
\<close>

definition example_Join :: "string list \<Rightarrow> string" where
  "example_Join xs = join_slash (filter (\<lambda>x. x \<noteq> []) xs)"

definition example_url :: URL where
  "example_url =
     ''https://raw.githubusercontent.com/acme/widgets/0123456789abcdef0123456789abcdef01234567/modules/foo/metadata.json''"

definition example_archive_url :: URL where
  "example_archive_url =
     ''https://github.com/acme/widgets/archive/0123456789abcdef0123456789abcdef01234567.tar.gz''"

definition example_metadata :: Metadata where
  "example_metadata =
     \<lparr>md_Name = ''widgets'', md_Version = ''1.0.0'', md_Authors = [''acme''],
      md_Description = ''Widgets'', md_Tags = [],
      md_Entries = \<lparr>Js = ''index.js'', Css = [], Mixin = []\<rparr>,
      md_Dependencies = [], md_SpotifyVersions = []\<rparr>"

definition example_env :: env where
  "example_env =
     \<lparr>ConfigPath = ''/cfg'',
      filepath_Join = example_Join,
      path_Join = example_Join,
      http_Get = (\<lambda>u. if u = example_url then Inr \<lparr>StatusCode = 200, Body = ''metadata''\<rparr>
                       else if u = example_archive_url
                         then Inr \<lparr>StatusCode = 200, Body = ''tarball''\<rparr>
                       else Inl ''no such host''),
      ListBranches = (\<lambda>ow rp. Inr [''main'']),
      json_Decode_Metadata = (\<lambda>b. if b = ''metadata'' then Inr example_metadata
                                    else Inl ''invalid character''),
      regexp_Compiles = (\<lambda>p. True),
      UnTarGZ_outcome = (\<lambda>body re dest. if body = ''tarball'' then (None, True)
                                           else (Some ''gzip: invalid header'', False)),
      WriteFile_error = None,
      RemoveAll_error = None\<rparr>"

definition widgets :: ModuleIdentifier where
  "widgets = \<lparr>Author = ''acme'', Name = ''widgets''\<rparr>"

definition widgets_1 :: StoreIdentifier where
  "widgets_1 = \<lparr>ModuleIdentifier = widgets, Version = ''1.0.0''\<rparr>"

definition widgets_2 :: StoreIdentifier where
  "widgets_2 = \<lparr>ModuleIdentifier = widgets, Version = ''2.0.0''\<rparr>"

definition record_1 :: MetadataURL where
  "record_1 = \<lparr>Local = ''/modules/acme/widgets/metadata.json'', Remote = example_url\<rparr>"

text \<open>
  Vault files holding \<open>acme/widgets\<close> with the records named and the version enabled, and
  a world with such a vault file and, when a version is enabled, the link to its store
  path at the module path.
\<close>

definition vault_of :: "Version \<Rightarrow> Version list \<Rightarrow> VaultJson" where
  "vault_of en vs =
     [''acme'' \<mapsto> [''widgets'' \<mapsto>
        \<lparr>json_enabled = en,
         json_metadatas = Some (\<lambda>v. if v \<in> set vs then Some record_1 else None)\<rparr>]]"

definition world_of :: "VaultFile \<Rightarrow> (string \<rightharpoonup> node) \<Rightarrow> world" where
  "world_of f links = \<lparr>vault_file = f, vault_writes = 0, fs = links, untar_calls = []\<rparr>"

text \<open>
  Three variations: the branch listing fails; every URL but that of the metadata is
  answered with status 404 and a body that is no archive; the metadata served has an
  empty version.
\<close>

definition env_offline :: env where
  "env_offline = example_env\<lparr>ListBranches := (\<lambda>ow rp. Inl ''dial tcp: no such host'')\<rparr>"

definition env_404 :: env where
  "env_404 = example_env
     \<lparr>http_Get := (\<lambda>u. if u = example_url then Inr \<lparr>StatusCode = 200, Body = ''metadata''\<rparr>
                        else Inr \<lparr>StatusCode = 404, Body = ''404: Not Found''\<rparr>)\<rparr>"

definition env_no_version :: env where
  "env_no_version = example_env
     \<lparr>json_Decode_Metadata := (\<lambda>b. Inr (example_metadata\<lparr>md_Version := []\<rparr>))\<rparr>"

definition example_path :: VersionedGithubPath where
  "example_path =
     \<lparr>owner = ''acme'', repo = ''widgets'',
      version = \<lparr>type_tag = ''commit'', commit = ''0123456789abcdef0123456789abcdef01234567'',
                 tag = [], branch = []\<rparr>,
      path = ''modules/foo''\<rparr>"

section \<open>Properties\<close>

subsection \<open>The vault file, its decoding and the system calls\<close>

text \<open>Decoding a vault document and marshalling the result gives the document back.\<close>

lemma json_roundtrip:
  "json_Marshal_Vault (fst (json_Decode_Vault d)) (snd (json_Decode_Vault d)) = d"
proof (rule ext)
  fix a
  show "json_Marshal_Vault (fst (json_Decode_Vault d)) (snd (json_Decode_Vault d)) a = d a"
  proof (cases "d a")
    case None
    then show ?thesis by (simp add: json_Marshal_Vault_def json_Decode_Vault_def)
  next
    case (Some ns)
    have "json_Marshal_Vault (fst (json_Decode_Vault d)) (snd (json_Decode_Vault d)) a
          = Some (\<lambda>n. case ns n of None \<Rightarrow> None | Some bv \<Rightarrow> Some bv)"
      using Some
      apply (simp add: json_Marshal_Vault_def json_Decode_Vault_def)
      apply (rule ext)
      subgoal for n
        apply (cases "ns n")
         apply simp
        subgoal for bv
          by (cases "json_metadatas bv") simp_all
        done
      done
    also have "(\<lambda>n. case ns n of None \<Rightarrow> None | Some bv \<Rightarrow> Some bv) = ns"
      by (rule ext) (simp split: option.splits)
    finally show ?thesis using Some by simp
  qed
qed

lemma os_keep_vault [simp]:
  "vault_file (snd (os_MkdirAll p w)) = vault_file w"
  "vault_writes (snd (os_MkdirAll p w)) = vault_writes w"
  "untar_calls (snd (os_MkdirAll p w)) = untar_calls w"
  "vault_file (snd (os_Symlink t p w)) = vault_file w"
  "vault_writes (snd (os_Symlink t p w)) = vault_writes w"
  "untar_calls (snd (os_Symlink t p w)) = untar_calls w"
  "vault_file (snd (os_Remove p w)) = vault_file w"
  "vault_writes (snd (os_Remove p w)) = vault_writes w"
  "untar_calls (snd (os_Remove p w)) = untar_calls w"
  by (simp_all add: os_MkdirAll_def os_Symlink_def os_Remove_def split: option.splits node.splits)

lemma symlink_keep_vault [simp]:
  "vault_file (createSymlink E i w) = vault_file w"
  "vault_writes (createSymlink E i w) = vault_writes w"
  "untar_calls (createSymlink E i w) = untar_calls w"
  "vault_file (destroySymlink E mi w) = vault_file w"
  "vault_writes (destroySymlink E mi w) = vault_writes w"
  "untar_calls (destroySymlink E mi w) = untar_calls w"
  by (simp_all add: createSymlink_def destroySymlink_def)

lemma SetVault_decoded:
  "SetVault E (fst (json_Decode_Vault d)) (snd (json_Decode_Vault d)) w =
     (case WriteFile_error E of
        Some e \<Rightarrow> (Error e, snd (os_MkdirAll (modulesFolder E) w))
      | None \<Rightarrow> (Ok (), (snd (os_MkdirAll (modulesFolder E) w))
          \<lparr>vault_file := Json d, vault_writes := Suc (vault_writes w)\<rparr>))"
  by (simp add: SetVault_def Let_def json_roundtrip split: option.splits)

lemma GetVault_Json: "vault_file w = Json d \<Longrightarrow> GetVault E w = (json_Decode_Vault d, None)"
  by (simp add: GetVault_def)

lemma GetVault_error_cases:
  "snd (GetVault E w) = None \<Longrightarrow> \<exists>d. vault_file w = Json d"
  by (cases "vault_file w") (simp_all add: GetVault_def)

lemma getAll_decode:
  "getAllModuleVersions (fst (json_Decode_Vault d)) mi =
     (case (case d (Author mi) of None \<Rightarrow> None | Some ns \<Rightarrow> ns (Name mi)) of
        None \<Rightarrow> (\<lparr>Enabled = [], Metadatas = None\<rparr>, False)
      | Some bv \<Rightarrow>
          (\<lparr>Enabled = json_enabled bv,
            Metadatas = (case json_metadatas bv of None \<Rightarrow> None
                         | Some m \<Rightarrow> Some (Author mi, Name mi))\<rparr>, True))"
  by (simp add: getAllModuleVersions_def json_Decode_Vault_def split: option.splits)


lemma Toggle_keeps_vault_file:
  "vault_file (snd (ToggleModuleInVault E identifier enabled w)) = vault_file w"
proof (cases "vault_file w")
  case (Json d)
  obtain v h where vh: "json_Decode_Vault d = (v, h)" by (cases "json_Decode_Vault d")
  have sv: "vault_file (snd (SetVault E v h w')) = Json d" if "vault_file w' = Json d" for w'
    using SetVault_decoded [of E d w'] vh that by (simp split: option.splits)
  show ?thesis
    using Json vh
    by (simp add: ToggleModuleInVault_def GetVault_def Let_def sv split: prod.splits)
qed (simp_all add: ToggleModuleInVault_def GetVault_def)


subsection \<open>Parsing identifiers\<close>

lemma NewStoreIdentifier_always_panics:
  "\<exists>p. NewStoreIdentifier s = Panic p"
  by (auto simp: NewStoreIdentifier_def NewModuleIdentifier_def index_def Let_def
      storeIdentifierRe_FindStringSubmatch_def moduleIdentifierRe_FindStringSubmatch_def
      split: list.splits)

text \<open>
  C3. The claim: \<open>NewModuleIdentifier\<close> on \<open>author/name\<close> returns the identifier
  \<open>(author, name)\<close>, \<open>NewStoreIdentifier\<close> on \<open>author/name/version\<close> returns those three
  components, and any other input is a reported parse error. The code at these inputs:
  \<open>acme/widgets\<close> yields author \<open>acme/widgets\<close> and name \<open>acme\<close> (the indices are off by
  one), \<open>acme/widgets/1.0.0\<close> panics, and the malformed \<open>acme\<close> panics.
\<close>

theorem C3_parse_identifiers_off_by_one:
  "NewModuleIdentifier ''acme/widgets'' = Ok \<lparr>Author = ''acme/widgets'', Name = ''acme''\<rparr>
   \<and> NewStoreIdentifier ''acme/widgets/1.0.0'' = Panic ''index out of range''
   \<and> NewModuleIdentifier ''acme'' = Panic ''index out of range''"
  by (simp add: NewStoreIdentifier_def NewModuleIdentifier_def index_def Let_def
      storeIdentifierRe_FindStringSubmatch_def moduleIdentifierRe_FindStringSubmatch_def)

text \<open>The definitions to unfold when a run is evaluated at a concrete input.\<close>

lemmas ex_defs = example_env_def example_Join_def example_url_def example_archive_url_def
  example_metadata_def widgets_def widgets_1_def widgets_2_def world_of_def vault_of_def
  record_1_def env_offline_def env_404_def env_no_version_def example_path_def

lemmas path_defs = modulesFolder_def storeFolder_def vaultPath_def mi_toPath_def
  mi_toFilePath_def si_toPath_def si_toFilePath_def

lemmas op_defs = ToggleModuleInVault_def RemoveModuleInVault_def MutateVault_def
  DeleteModule_def deleteModuleInStore_def GetVault_def SetVault_def
  getAllModuleVersions_def json_Decode_Vault_def json_Marshal_Vault_def
  createSymlink_def destroySymlink_def os_Symlink_def os_Remove_def os_MkdirAll_def
  os_RemoveAll_def persisted_module_def

subsection \<open>Enabling a version\<close>

text \<open>
  C1. The claim: when the module has a record for the version \<open>v\<close> and
  \<open>ToggleModuleInVault\<close> of \<open>v\<close> with \<open>true\<close> returns success, the vault file has \<open>v\<close> as
  the enabled version of the module. The code at a vault file in which \<open>acme/widgets\<close> has
  the record \<open>1.0.0\<close> and nothing enabled: enabling \<open>1.0.0\<close> returns success and the vault
  file written still has the empty string as the enabled version, the assignment having
  been made to a copy of the struct.
\<close>

theorem C1_toggle_enable_not_persisted:
  "fst (ToggleModuleInVault example_env widgets_1 True
          (world_of (Json (vault_of [] [''1.0.0''])) Map.empty)) = Ok ()
   \<and> map_option json_enabled
        (persisted_module
           (snd (ToggleModuleInVault example_env widgets_1 True
                   (world_of (Json (vault_of [] [''1.0.0''])) Map.empty))) widgets) = Some []
   \<and> map_option (\<lambda>bv. has_record bv ''1.0.0'')
        (persisted_module (world_of (Json (vault_of [] [''1.0.0''])) Map.empty) widgets)
       = Some True"
  by (simp add: ex_defs path_defs op_defs has_record_def Let_def dom_def)

subsection \<open>The invariant I1\<close>

text \<open>
  C2. The claim: after any sequence of installs, toggles and removals the enabled version
  of every module is empty or has a record. The code at a vault file that satisfies the
  invariant, with \<open>acme/widgets\<close> holding the record \<open>1.0.0\<close> and \<open>1.0.0\<close> enabled: removing
  \<open>1.0.0\<close> returns success, and in the vault file written the record is gone while \<open>1.0.0\<close>
  is still the enabled version, the enabled version having been cleared in a copy of the
  struct.
\<close>

theorem C2_remove_enabled_breaks_I1:
  "map_option I1
     (persisted_module
        (world_of (Json (vault_of ''1.0.0'' [''1.0.0'']))
           [''/cfg/modules/acme/widgets'' \<mapsto> Symlink ''/cfg/store/acme/widgets/1.0.0''])
        widgets) = Some True
   \<and> fst (DeleteModule example_env widgets_1
        (world_of (Json (vault_of ''1.0.0'' [''1.0.0'']))
           [''/cfg/modules/acme/widgets'' \<mapsto> Symlink ''/cfg/store/acme/widgets/1.0.0'']))
       = Ok ()
   \<and> map_option I1
     (persisted_module
        (snd (DeleteModule example_env widgets_1
        (world_of (Json (vault_of ''1.0.0'' [''1.0.0'']))
           [''/cfg/modules/acme/widgets'' \<mapsto> Symlink ''/cfg/store/acme/widgets/1.0.0''])))
        widgets) = Some False"
  by (simp add: ex_defs path_defs op_defs has_record_def I1_def Let_def dom_def)

subsection \<open>The link at the module path\<close>

text \<open>
  C5. The claim: after a successful toggle of \<open>v\<close> to enabled the module path is a link to
  the store path of \<open>v\<close>, also when a link to another version was there, and after a
  successful toggle of the enabled \<open>v\<close> to disabled there is no link. The code at a vault
  with the records \<open>1.0.0\<close> and \<open>2.0.0\<close>, \<open>1.0.0\<close> enabled and the module path linked to the
  store path of \<open>1.0.0\<close>: enabling \<open>2.0.0\<close> returns success and the module path is still the
  link to the store path of \<open>1.0.0\<close>, since \<^verbatim>\<open>os.Symlink\<close> fails on an existing name and
  \<^verbatim>\<open>createSymlink\<close> drops its error.
\<close>

theorem C5_toggle_enable_keeps_old_link:
  "fst (ToggleModuleInVault example_env widgets_2 True
        (world_of (Json (vault_of ''1.0.0'' [''1.0.0'', ''2.0.0'']))
           [''/cfg/modules/acme/widgets'' \<mapsto> Symlink ''/cfg/store/acme/widgets/1.0.0'']))
       = Ok ()
   \<and> fs (snd (ToggleModuleInVault example_env widgets_2 True
        (world_of (Json (vault_of ''1.0.0'' [''1.0.0'', ''2.0.0'']))
           [''/cfg/modules/acme/widgets'' \<mapsto> Symlink ''/cfg/store/acme/widgets/1.0.0''])))
        (mi_toFilePath example_env widgets)
       = Some (Symlink ''/cfg/store/acme/widgets/1.0.0'')
   \<and> si_toFilePath example_env widgets_2 = ''/cfg/store/acme/widgets/2.0.0''
   \<and> mi_toFilePath example_env widgets = ''/cfg/modules/acme/widgets''"
  by (simp add: ex_defs path_defs op_defs Let_def)

subsection \<open>Removing a version that has no record\<close>



subsection \<open>Metadata, download and the refused record\<close>

lemma UnTarGZ_keeps_vault [simp]:
  "vault_file (snd (UnTarGZ E body re dest w)) = vault_file w"
  "vault_writes (snd (UnTarGZ E body re dest w)) = vault_writes w"
  by (simp_all add: UnTarGZ_def Let_def split: prod.splits option.splits)

lemma download_keeps_vault [simp]:
  "vault_file (snd (downloadModuleInStore E url sid w)) = vault_file w"
  "vault_writes (snd (downloadModuleInStore E url sid w)) = vault_writes w"
  by (simp_all add: downloadModuleInStore_def Let_def split: res.splits sum.splits)

lemma getStoreIdentifier_Ok:
  "getStoreIdentifier md = Ok sid \<longleftrightarrow>
   (\<exists>mi. getModuleIdentifier md = Ok mi \<and> sid = \<lparr>ModuleIdentifier = mi, Version = md_Version md\<rparr>)"
  by (auto simp: getStoreIdentifier_def split: res.splits)

lemma getModuleIdentifier_Cons:
  "md_Authors md = a # as \<Longrightarrow> getModuleIdentifier md = Ok \<lparr>Author = a, Name = md_Name md\<rparr>"
  by (simp add: getModuleIdentifier_def getAuthor_def index_def)

lemma getAuthor_empty_panics:
  "md_Authors md = [] \<Longrightarrow> getAuthor md = Panic ''index out of range''"
  by (simp add: getAuthor_def index_def)

lemma Install_empty_authors_panics:
  "fetchRemoteMetadata E url = Ok md \<Longrightarrow> md_Authors md = [] \<Longrightarrow>
   InstallModuleMURL E url w = (Panic ''index out of range'', w)"
  by (simp add: InstallModuleMURL_def getStoreIdentifier_def getModuleIdentifier_def
      getAuthor_empty_panics)

lemma add_refused_not_Ok [simp]: "add_refused E w \<noteq> Ok u"
  by (simp add: add_refused_def split: VaultFile.splits)

lemma AddModuleInVault_empty_version:
  "md_Version md = [] \<Longrightarrow> AddModuleInVault E md module w = (add_refused E w, w)"
  by (simp add: AddModuleInVault_def MutateVault_def GetVault_def setModule_def add_refused_def
      split: VaultFile.splits prod.splits)

lemma AddModuleInVault_absent:
  assumes mi: "getModuleIdentifier md = Ok mi" and absent: "persisted_module w mi = None"
  shows "AddModuleInVault E md module w = (add_refused E w, w)"
proof (cases "vault_file w")
  case (Json d)
  obtain v h where vh: "json_Decode_Vault d = (v, h)" by (cases "json_Decode_Vault d")
  from absent Json have "(case d (Author mi) of None \<Rightarrow> None | Some ns \<Rightarrow> ns (Name mi)) = None"
    by (simp add: persisted_module_def)
  then have "getAllModuleVersions v mi = (\<lparr>Enabled = [], Metadatas = None\<rparr>, False)"
    using getAll_decode [of d mi] vh by simp
  then have "setModule v h md module = (Ok False, h)"
    using mi by (simp add: setModule_def)
  then show ?thesis
    using Json vh
    by (simp add: AddModuleInVault_def MutateVault_def GetVault_def add_refused_def)
qed (simp_all add: AddModuleInVault_def MutateVault_def GetVault_def add_refused_def)

lemma add_refused_cong: "vault_file w' = vault_file w \<Longrightarrow> add_refused E w' = add_refused E w"
  by (simp add: add_refused_def)

lemma Install_after_download:
  assumes "fetchRemoteMetadata E url = Ok md"
    and "getStoreIdentifier md = Ok sid"
    and "getModuleIdentifier md = Ok mi"
    and "downloadModuleInStore E url sid w = (Ok (), w')"
  shows "InstallModuleMURL E url w =
           AddModuleInVault E md
             \<lparr>Local = ''/modules/'' @ mi_toPath E mi @ ''/metadata.json'', Remote = url\<rparr> w'"
  using assms by (simp add: InstallModuleMURL_def)

text \<open>
  The download returns an error exactly when the resolution of the archive, the request
  or the extraction does.
\<close>

lemma downloadModuleInStore_Error_iff:
  "fst (downloadModuleInStore E url sid w) = Error e \<longleftrightarrow>
     parseGithubRawLink E url = Error e
     \<or> (\<exists>gp. parseGithubRawLink E url = Ok gp \<and> http_Get E (getRepoArchiveLink gp) = Inl e)
     \<or> (\<exists>gp res. parseGithubRawLink E url = Ok gp
           \<and> http_Get E (getRepoArchiveLink gp) = Inr res
           \<and> regexp_Compiles E (''^[^/]+/'' @ path gp @ ''(.*)'')
           \<and> fst (UnTarGZ E (Body res) (''^[^/]+/'' @ path gp @ ''(.*)'')
                     (si_toFilePath E sid) w) = Error e)"
  by (auto simp: downloadModuleInStore_def Let_def split: res.splits sum.splits)

text \<open>
  No operation changes the enabled version that the vault file holds for a module: an
  install and a removal write through the maps of the records only, and a toggle writes
  the vault as it was read.
\<close>

lemma marshal_enabled:
  "map_option json_enabled
     (case json_Marshal_Vault v h a of None \<Rightarrow> None | Some ns \<Rightarrow> ns n)
   = map_option Enabled (case Modules v a of None \<Rightarrow> None | Some ns \<Rightarrow> ns n)"
  by (simp add: json_Marshal_Vault_def split: option.splits)

lemma decode_enabled:
  "map_option Enabled
     (case Modules (fst (json_Decode_Vault d)) a of None \<Rightarrow> None | Some ns \<Rightarrow> ns n)
   = map_option json_enabled (case d a of None \<Rightarrow> None | Some ns \<Rightarrow> ns n)"
  by (simp add: json_Decode_Vault_def split: option.splits)

lemma SetVault_keeps_enabled:
  assumes "vault_file w' = Json d" and "json_Decode_Vault d = (v, h)"
  shows "map_option json_enabled (persisted_module (snd (SetVault E v h' w')) mi)
       = map_option json_enabled (persisted_module w' mi)"
proof (cases "WriteFile_error E")
  case None
  then show ?thesis
    using assms marshal_enabled [where v = v and h = h' and a = "Author mi" and n = "Name mi"]
      decode_enabled [where d = d and a = "Author mi" and n = "Name mi"]
    by (simp add: SetVault_def Let_def persisted_module_def)
next
  case (Some e)
  then show ?thesis by (simp add: SetVault_def Let_def persisted_module_def)
qed

lemma Remove_keeps_enabled:
  "map_option json_enabled (persisted_module (snd (RemoveModuleInVault E identifier w)) mi)
   = map_option json_enabled (persisted_module w mi)"
proof (cases "vault_file w")
  case (Json d)
  obtain v h where vh: "json_Decode_Vault d = (v, h)" by (cases "json_Decode_Vault d")
  have sv: "map_option json_enabled (persisted_module (snd (SetVault E v h' w')) mi)
       = map_option json_enabled (persisted_module w mi)" if "vault_file w' = Json d" for w' h'
    using SetVault_keeps_enabled [OF that vh, where E = E and h' = h' and mi = mi] that Json
    by (simp add: persisted_module_def)
  show ?thesis
    using Json vh
    by (simp add: RemoveModuleInVault_def MutateVault_def GetVault_def Let_def sv
        split: prod.splits option.splits)
next
  case NoFile
  then show ?thesis by (simp add: RemoveModuleInVault_def MutateVault_def GetVault_def)
next
  case (Undecodable e)
  then show ?thesis by (simp add: RemoveModuleInVault_def MutateVault_def GetVault_def)
qed

lemma os_RemoveAll_keeps_vault [simp]:
  "vault_file (snd (os_RemoveAll E p w)) = vault_file w"
  by (simp add: os_RemoveAll_def split: option.splits)

lemma DeleteModule_keeps_enabled:
  "map_option json_enabled (persisted_module (snd (DeleteModule E sid w)) mi)
   = map_option json_enabled (persisted_module w mi)"
proof -
  obtain r w' where rw: "RemoveModuleInVault E sid w = (r, w')"
    by (cases "RemoveModuleInVault E sid w")
  have "map_option json_enabled (persisted_module w' mi)
      = map_option json_enabled (persisted_module w mi)"
    using Remove_keeps_enabled [of E sid w mi] rw by simp
  moreover have "persisted_module (snd (os_RemoveAll E p w')) mi = persisted_module w' mi" for p
    by (simp add: persisted_module_def)
  ultimately show ?thesis
    using rw by (cases r) (simp_all add: DeleteModule_def deleteModuleInStore_def)
qed

lemma AddModuleInVault_keeps_enabled:
  "map_option json_enabled (persisted_module (snd (AddModuleInVault E md module w)) mi)
   = map_option json_enabled (persisted_module w mi)"
proof (cases "vault_file w")
  case (Json d)
  obtain v h where vh: "json_Decode_Vault d = (v, h)" by (cases "json_Decode_Vault d")
  have sv: "map_option json_enabled (persisted_module (snd (SetVault E v h' w)) mi)
       = map_option json_enabled (persisted_module w mi)" for h'
    using SetVault_keeps_enabled [OF Json vh, where E = E and h' = h' and mi = mi] by simp
  obtain r h' where sm: "setModule v h md module = (r, h')"
    by (cases "setModule v h md module")
  show ?thesis
    using Json vh sm sv
    by (cases r) (simp_all add: AddModuleInVault_def MutateVault_def GetVault_def)
next
  case NoFile
  then show ?thesis by (simp add: AddModuleInVault_def MutateVault_def GetVault_def)
next
  case (Undecodable e)
  then show ?thesis by (simp add: AddModuleInVault_def MutateVault_def GetVault_def)
qed

lemma Install_keeps_enabled:
  "map_option json_enabled (persisted_module (snd (InstallModuleMURL E url w)) mi)
   = map_option json_enabled (persisted_module w mi)"
proof -
  have dl: "persisted_module (snd (downloadModuleInStore E url sid w)) mi = persisted_module w mi"
    for sid
    by (simp add: persisted_module_def)
  have step: "map_option json_enabled
       (persisted_module (snd (case downloadModuleInStore E url sid w of
            (Panic p, w) \<Rightarrow> (Panic p, w)
          | (Error e, w) \<Rightarrow> (Error e, w)
          | (Ok u, w) \<Rightarrow> k w)) mi)
     = map_option json_enabled (persisted_module w mi)"
    if "\<And>w'. map_option json_enabled (persisted_module (snd (k w')) mi)
            = map_option json_enabled (persisted_module w' mi)" for sid and k :: "world \<Rightarrow> unit res \<times> world"
  proof -
    obtain r w' where d: "downloadModuleInStore E url sid w = (r, w')"
      by (cases "downloadModuleInStore E url sid w")
    have "persisted_module w' mi = persisted_module w mi"
      using dl [of sid] d by simp
    then show ?thesis using d that [of w'] by (cases r) simp_all
  qed
  show ?thesis
    unfolding InstallModuleMURL_def
    by (auto simp: AddModuleInVault_keeps_enabled split: res.splits intro!: step)
qed

subsection \<open>The concrete runs, step by step\<close>

lemma example_env_fields:
  "ConfigPath example_env = ''/cfg''"
  "filepath_Join example_env = example_Join"
  "path_Join example_env = example_Join"
  "http_Get example_env u =
     (if u = example_url then Inr \<lparr>StatusCode = 200, Body = ''metadata''\<rparr>
      else if u = example_archive_url then Inr \<lparr>StatusCode = 200, Body = ''tarball''\<rparr>
      else Inl ''no such host'')"
  "ListBranches example_env ow rp = Inr [''main'']"
  "json_Decode_Metadata example_env b = (if b = ''metadata'' then Inr example_metadata
                                         else Inl ''invalid character'')"
  "regexp_Compiles example_env p = True"
  "UnTarGZ_outcome example_env body re dest = (if body = ''tarball'' then (None, True)
                                               else (Some ''gzip: invalid header'', False))"
  "WriteFile_error example_env = None"
  "RemoveAll_error example_env = None"
  by (simp_all add: example_env_def)

lemma env_404_fields:
  "ConfigPath env_404 = ''/cfg''"
  "filepath_Join env_404 = example_Join"
  "path_Join env_404 = example_Join"
  "http_Get env_404 u = (if u = example_url then Inr \<lparr>StatusCode = 200, Body = ''metadata''\<rparr>
                         else Inr \<lparr>StatusCode = 404, Body = ''404: Not Found''\<rparr>)"
  "ListBranches env_404 ow rp = Inr [''main'']"
  "json_Decode_Metadata env_404 b = (if b = ''metadata'' then Inr example_metadata
                                     else Inl ''invalid character'')"
  "regexp_Compiles env_404 p = True"
  "UnTarGZ_outcome env_404 body re dest = (if body = ''tarball'' then (None, True)
                                           else (Some ''gzip: invalid header'', False))"
  "WriteFile_error env_404 = None"
  "RemoveAll_error env_404 = None"
  by (simp_all add: env_404_def example_env_def)

lemma env_no_version_fields:
  "ConfigPath env_no_version = ''/cfg''"
  "filepath_Join env_no_version = example_Join"
  "path_Join env_no_version = example_Join"
  "http_Get env_no_version u =
     (if u = example_url then Inr \<lparr>StatusCode = 200, Body = ''metadata''\<rparr>
      else if u = example_archive_url then Inr \<lparr>StatusCode = 200, Body = ''tarball''\<rparr>
      else Inl ''no such host'')"
  "ListBranches env_no_version ow rp = Inr [''main'']"
  "json_Decode_Metadata env_no_version b = Inr (example_metadata\<lparr>md_Version := []\<rparr>)"
  "regexp_Compiles env_no_version p = True"
  "UnTarGZ_outcome env_no_version body re dest = (if body = ''tarball'' then (None, True)
                                               else (Some ''gzip: invalid header'', False))"
  "WriteFile_error env_no_version = None"
  "RemoveAll_error env_no_version = None"
  by (simp_all add: env_no_version_def example_env_def)

lemma match_here_length:
  "githubRawRe_match_here s = [] \<or> length (githubRawRe_match_here s) = 6"
  by (simp add: githubRawRe_match_here_def split: option.splits list.splits)

lemma FindStringSubmatch_length:
  "githubRawRe_FindStringSubmatch s = [] \<or> length (githubRawRe_FindStringSubmatch s) = 6"
  using match_here_length by (induction s) auto

lemma example_match:
  "githubRawRe_FindStringSubmatch example_url =
     [example_url, ''acme'', ''widgets'', ''0123456789abcdef0123456789abcdef01234567'',
      ''modules/foo'', ''n'']"
  by (simp add: example_url_def githubRawRe_match_here_def)

lemma example_path_path: "path example_path = ''modules/foo''"
  by (simp add: example_path_def)

lemma example_parse: "parseGithubRawLink example_env example_url = Ok example_path"
  by (simp add: parseGithubRawLink_def example_match Let_def example_env_def example_path_def)

lemma parse_404: "parseGithubRawLink env_404 example_url = Ok example_path"
  by (simp add: parseGithubRawLink_def example_match Let_def env_404_fields example_path_def)

lemma parse_no_version: "parseGithubRawLink env_no_version example_url = Ok example_path"
  by (simp add: parseGithubRawLink_def example_match Let_def env_no_version_fields
      example_path_def)

lemma example_link: "getRepoArchiveLink example_path = example_archive_url"
  by (simp add: getRepoArchiveLink_def example_path_def example_archive_url_def Let_def)

lemma archive_not_metadata: "example_archive_url \<noteq> example_url"
  by (simp add: example_archive_url_def example_url_def)

lemma fetch_example: "fetchRemoteMetadata example_env example_url = Ok example_metadata"
  by (simp add: fetchRemoteMetadata_def parseMetadata_def example_env_fields)

lemma fetch_404: "fetchRemoteMetadata env_404 example_url = Ok example_metadata"
  by (simp add: fetchRemoteMetadata_def parseMetadata_def env_404_fields)

lemma fetch_no_version:
  "fetchRemoteMetadata env_no_version example_url = Ok (example_metadata\<lparr>md_Version := []\<rparr>)"
  by (simp add: fetchRemoteMetadata_def parseMetadata_def env_no_version_fields)

lemma sid_example: "getStoreIdentifier example_metadata = Ok widgets_1"
  by (simp add: getStoreIdentifier_def getModuleIdentifier_def getAuthor_def index_def
      example_metadata_def widgets_1_def widgets_def)

lemma mi_example: "getModuleIdentifier example_metadata = Ok widgets"
  by (simp add: getModuleIdentifier_def getAuthor_def index_def example_metadata_def widgets_def)

lemma no_version_fields:
  "md_Authors (example_metadata\<lparr>md_Version := []\<rparr>) = ''acme'' # []"
  "md_Version (example_metadata\<lparr>md_Version := []\<rparr>) = []"
  "md_Name (example_metadata\<lparr>md_Version := []\<rparr>) = ''widgets''"
  by (simp_all add: example_metadata_def)

lemma download_example:
  "downloadModuleInStore example_env example_url widgets_1 (world_of f links) =
     (Ok (),
      (world_of f links)\<lparr>untar_calls :=
         [(''tarball'', ''^[^/]+/modules/foo(.*)'', ''/cfg/store/acme/widgets/1.0.0'')],
         fs := links(''/cfg/store/acme/widgets/1.0.0'' \<mapsto> Directory)\<rparr>)"
  by (simp add: downloadModuleInStore_def example_parse example_link archive_not_metadata
      UnTarGZ_def Let_def example_env_fields example_path_path world_of_def
      si_toFilePath_def storeFolder_def example_Join_def widgets_1_def widgets_def)

lemma download_404:
  "downloadModuleInStore env_404 example_url widgets_1 (world_of f links) =
     (Error ''gzip: invalid header'',
      (world_of f links)\<lparr>untar_calls :=
         [(''404: Not Found'', ''^[^/]+/modules/foo(.*)'', ''/cfg/store/acme/widgets/1.0.0'')]\<rparr>)"
  by (simp add: downloadModuleInStore_def parse_404 example_link archive_not_metadata
      UnTarGZ_def Let_def env_404_fields example_path_path world_of_def
      si_toFilePath_def storeFolder_def example_Join_def widgets_1_def widgets_def)

lemma download_no_version:
  "downloadModuleInStore env_no_version example_url
       \<lparr>ModuleIdentifier = widgets, Version = []\<rparr> (world_of f links) =
     (Ok (),
      (world_of f links)\<lparr>untar_calls :=
         [(''tarball'', ''^[^/]+/modules/foo(.*)'', ''/cfg/store/acme/widgets'')],
         fs := links(''/cfg/store/acme/widgets'' \<mapsto> Directory)\<rparr>)"
  by (simp add: downloadModuleInStore_def parse_no_version example_link archive_not_metadata
      UnTarGZ_def Let_def env_no_version_fields example_path_path world_of_def
      si_toFilePath_def storeFolder_def example_Join_def widgets_def)

lemma example_install_absent:
  assumes "persisted_module (world_of f links) widgets = None"
  shows "InstallModuleMURL example_env example_url (world_of f links) =
     (add_refused example_env (world_of f links),
      (world_of f links)\<lparr>untar_calls :=
         [(''tarball'', ''^[^/]+/modules/foo(.*)'', ''/cfg/store/acme/widgets/1.0.0'')],
         fs := links(''/cfg/store/acme/widgets/1.0.0'' \<mapsto> Directory)\<rparr>)"
proof -
  let ?w' = "(world_of f links)\<lparr>untar_calls :=
         [(''tarball'', ''^[^/]+/modules/foo(.*)'', ''/cfg/store/acme/widgets/1.0.0'')],
         fs := links(''/cfg/store/acme/widgets/1.0.0'' \<mapsto> Directory)\<rparr>"
  have a: "persisted_module ?w' widgets = None"
    using assms by (simp add: persisted_module_def)
  have r: "add_refused example_env ?w' = add_refused example_env (world_of f links)"
    by (simp add: add_refused_def)
  show ?thesis
    using Install_after_download [OF fetch_example sid_example mi_example download_example]
      AddModuleInVault_absent [OF mi_example a] r
    by simp
qed

lemma vaultPath_example: "vaultPath example_env = ''/cfg/modules/vault.json''"
  by (simp add: vaultPath_def modulesFolder_def example_env_fields example_Join_def)

subsection \<open>Classifying the reference of a raw link\<close>

text \<open>
  C4, as amended. The claim: a reference of 40 hexadecimal characters is classified as a
  commit with no network call, whatever the branch listing does. In the code the branch
  listing comes first: for a URL that matches and whose reference has 40 characters
  (hexadecimal or not), a failed listing is returned as the error of the resolver, and
  after a successful listing the reference is the commit, whatever names were listed.
\<close>

theorem C4_commit_after_listing:
  assumes m: "githubRawRe_FindStringSubmatch url = [whole, ow, rp, v, pth, base]"
    and len: "length v = 40"
  shows "(ListBranches E ow rp = Inl e \<longrightarrow> parseGithubRawLink E url = Error e)
       \<and> (ListBranches E ow rp = Inr names \<longrightarrow>
            parseGithubRawLink E url =
              Ok \<lparr>owner = ow, repo = rp,
                  version = \<lparr>type_tag = ''commit'', commit = v, tag = [], branch = []\<rparr>,
                  path = pth\<rparr>)"
  using m len by (simp add: parseGithubRawLink_def Let_def)

theorem C4_commit_after_listing_witness:
  "length ''0123456789abcdef0123456789abcdef01234567'' = 40
   \<and> ListBranches example_env ''acme'' ''widgets'' = Inr [''main'']
   \<and> parseGithubRawLink example_env example_url = Ok example_path
   \<and> ListBranches env_offline ''acme'' ''widgets'' = Inl ''dial tcp: no such host''
   \<and> parseGithubRawLink env_offline example_url = Error ''dial tcp: no such host''"
proof -
  have len: "length ''0123456789abcdef0123456789abcdef01234567'' = 40" by simp
  have l1: "ListBranches example_env ''acme'' ''widgets'' = Inr [''main'']"
    by (simp add: example_env_def)
  have l2: "ListBranches env_offline ''acme'' ''widgets'' = Inl ''dial tcp: no such host''"
    by (simp add: env_offline_def)
  show ?thesis
    using len l1 l2
      C4_commit_after_listing [OF example_match len, of example_env "''dial tcp: no such host''" "[''main'']"]
      C4_commit_after_listing [OF example_match len, of env_offline "''dial tcp: no such host''" "[''main'']"]
    by (simp add: example_path_def)
qed

text \<open>
  The claim as stated fails: for the same URL, with a reference of 40 hexadecimal digits,
  the resolver returns the commit when the listing succeeds and the error of the listing
  when the network is down.
\<close>

theorem C4_commit_needs_branch_listing:
  "parseGithubRawLink example_env example_url = Ok example_path
   \<and> parseGithubRawLink env_offline example_url = Error ''dial tcp: no such host''"
  by (simp add: parseGithubRawLink_def example_match Let_def example_env_def env_offline_def
      example_path_def)

subsection \<open>Installing\<close>

text \<open>
  C6. When the metadata was fetched and the download of the module (resolution of the
  archive, download, extraction) returns an error, \<open>InstallModuleMURL\<close> returns that
  error, and the vault file is neither written nor changed.
\<close>

theorem C6_install_download_error:
  assumes "fetchRemoteMetadata E url = Ok md"
    and "getStoreIdentifier md = Ok sid"
    and "fst (downloadModuleInStore E url sid w) = Error e"
  shows "fst (InstallModuleMURL E url w) = Error e
       \<and> vault_file (snd (InstallModuleMURL E url w)) = vault_file w
       \<and> vault_writes (snd (InstallModuleMURL E url w)) = vault_writes w"
proof -
  obtain r w' where d: "downloadModuleInStore E url sid w = (r, w')"
    by (cases "downloadModuleInStore E url sid w")
  with assms(3) have r: "r = Error e" by simp
  have "vault_file w' = vault_file w" "vault_writes w' = vault_writes w"
    using download_keeps_vault [of E url sid w] d by simp_all
  then show ?thesis
    using assms(1,2) d r by (simp add: InstallModuleMURL_def)
qed

theorem C6_install_download_error_witness:
  "fst (downloadModuleInStore env_404 example_url widgets_1
          (world_of (Json (vault_of [] [])) Map.empty)) = Error ''gzip: invalid header''
   \<and> fst (InstallModuleMURL env_404 example_url (world_of (Json (vault_of [] [])) Map.empty))
       = Error ''gzip: invalid header''
   \<and> vault_file (snd (InstallModuleMURL env_404 example_url
        (world_of (Json (vault_of [] [])) Map.empty))) = Json (vault_of [] [])
   \<and> vault_writes (snd (InstallModuleMURL env_404 example_url
        (world_of (Json (vault_of [] [])) Map.empty))) = 0"
proof -
  have d: "fst (downloadModuleInStore env_404 example_url widgets_1
          (world_of (Json (vault_of [] [])) Map.empty)) = Error ''gzip: invalid header''"
    by (simp add: download_404)
  show ?thesis
    using d C6_install_download_error [OF fetch_404 sid_example d]
    by (simp add: world_of_def)
qed

text \<open>
  C7, as amended. The claim: installing a module that the vault does not hold succeeds and
  records the version, also when there is no vault file. In the code \<^verbatim>\<open>setModule\<close> refuses
  a module that the vault does not hold and \<^verbatim>\<open>MutateVault\<close> returns on the error of
  \<^verbatim>\<open>GetVault\<close>: such an install runs the download, never succeeds and leaves the vault
  file as it was; its result is the failure of the download when there is one, and
  otherwise the error of opening or decoding the vault file, or \<open>failed to mutate vault\<close>.
\<close>

theorem C7_install_absent_module_fails:
  assumes fetch: "fetchRemoteMetadata E url = Ok md"
    and mi: "getModuleIdentifier md = Ok mi"
    and absent: "persisted_module w mi = None"
  shows "fst (InstallModuleMURL E url w) \<noteq> Ok ()
       \<and> vault_file (snd (InstallModuleMURL E url w)) = vault_file w
       \<and> vault_writes (snd (InstallModuleMURL E url w)) = vault_writes w
       \<and> snd (InstallModuleMURL E url w)
           = snd (downloadModuleInStore E url
                    \<lparr>ModuleIdentifier = mi, Version = md_Version md\<rparr> w)
       \<and> fst (InstallModuleMURL E url w)
           = (if fst (downloadModuleInStore E url
                        \<lparr>ModuleIdentifier = mi, Version = md_Version md\<rparr> w) = Ok ()
              then add_refused E w
              else fst (downloadModuleInStore E url
                          \<lparr>ModuleIdentifier = mi, Version = md_Version md\<rparr> w))"
proof -
  let ?sid = "\<lparr>ModuleIdentifier = mi, Version = md_Version md\<rparr>"
  have sid: "getStoreIdentifier md = Ok ?sid"
    using mi by (simp add: getStoreIdentifier_def)
  obtain r w' where d: "downloadModuleInStore E url ?sid w = (r, w')"
    by (cases "downloadModuleInStore E url ?sid w")
  have keep: "vault_file w' = vault_file w" "vault_writes w' = vault_writes w"
    using download_keeps_vault [of E url ?sid w] d by simp_all
  have absent': "persisted_module w' mi = None"
    using absent keep by (simp add: persisted_module_def)
  have add: "AddModuleInVault E md module w' = (add_refused E w, w')" for module
    using AddModuleInVault_absent [OF mi absent', of E module] add_refused_cong [OF keep(1), of E]
    by simp
  show ?thesis
    using fetch sid mi d keep add
    by (cases r) (simp_all add: InstallModuleMURL_def)
qed

theorem C7_install_absent_module_fails_witness:
  "getModuleIdentifier example_metadata = Ok widgets
   \<and> persisted_module (world_of NoFile Map.empty) widgets = None
   \<and> fst (downloadModuleInStore example_env example_url widgets_1 (world_of NoFile Map.empty))
       = Ok ()
   \<and> fst (InstallModuleMURL example_env example_url (world_of NoFile Map.empty))
       = Error ''open /cfg/modules/vault.json: no such file or directory''
   \<and> vault_file (snd (InstallModuleMURL example_env example_url (world_of NoFile Map.empty)))
       = NoFile"
proof -
  have a: "persisted_module (world_of NoFile Map.empty) widgets = None"
    by (simp add: persisted_module_def world_of_def)
  have d: "fst (downloadModuleInStore example_env example_url
                  \<lparr>ModuleIdentifier = widgets, Version = md_Version example_metadata\<rparr>
                  (world_of NoFile Map.empty)) = Ok ()"
    using download_example [of NoFile Map.empty]
    by (simp add: widgets_1_def example_metadata_def)
  have r: "add_refused example_env (world_of NoFile Map.empty)
       = Error ''open /cfg/modules/vault.json: no such file or directory''"
    by (simp add: add_refused_def world_of_def vaultPath_def modulesFolder_def
        example_env_fields example_Join_def)
  show ?thesis
    using mi_example a d r
      C7_install_absent_module_fails [OF fetch_example mi_example a]
    by (simp add: widgets_1_def example_metadata_def world_of_def)
qed

text \<open>
  The claim as stated fails: with a vault file that holds no module, and with no vault
  file, the install of \<open>acme/widgets\<close> returns an error and no record is written.
\<close>

theorem C7_install_into_empty_vault_fails:
  "fst (InstallModuleMURL example_env example_url (world_of (Json Map.empty) Map.empty))
     = Error ''failed to mutate vault''
   \<and> persisted_module
       (snd (InstallModuleMURL example_env example_url (world_of (Json Map.empty) Map.empty)))
       widgets = None
   \<and> fst (InstallModuleMURL example_env example_url (world_of NoFile Map.empty))
     = Error ''open /cfg/modules/vault.json: no such file or directory''
   \<and> vault_file (snd (InstallModuleMURL example_env example_url (world_of NoFile Map.empty)))
     = NoFile"
proof -
  have a: "persisted_module (world_of (Json Map.empty) Map.empty) widgets = None"
    by (simp add: persisted_module_def world_of_def)
  have b: "persisted_module (world_of NoFile Map.empty) widgets = None"
    by (simp add: persisted_module_def world_of_def)
  show ?thesis
    unfolding example_install_absent [OF a] example_install_absent [OF b]
    by (simp add: add_refused_def persisted_module_def vaultPath_example world_of_def)
qed

text \<open>
  C8, as amended. The claim: metadata with no author or with an empty version makes the
  install fail with a metadata error, before download and extraction. In the code, for
  metadata with an author and an empty version, the download runs first (the world after
  the install is the world after the download), the install never succeeds and the vault
  file is not written; the result is the failure of the download when there is one, and
  otherwise the error of opening or decoding the vault file, or \<open>failed to mutate vault\<close>
  from \<^verbatim>\<open>setModule\<close>.
\<close>

theorem C8_install_empty_version:
  assumes fetch: "fetchRemoteMetadata E url = Ok md"
    and authors: "md_Authors md = a # as"
    and version: "md_Version md = []"
  shows "fst (InstallModuleMURL E url w) \<noteq> Ok ()
       \<and> snd (InstallModuleMURL E url w)
           = snd (downloadModuleInStore E url
                    \<lparr>ModuleIdentifier = \<lparr>Author = a, Name = md_Name md\<rparr>, Version = []\<rparr> w)
       \<and> vault_file (snd (InstallModuleMURL E url w)) = vault_file w
       \<and> vault_writes (snd (InstallModuleMURL E url w)) = vault_writes w
       \<and> fst (InstallModuleMURL E url w)
           = (if fst (downloadModuleInStore E url
                        \<lparr>ModuleIdentifier = \<lparr>Author = a, Name = md_Name md\<rparr>,
                         Version = []\<rparr> w) = Ok ()
              then add_refused E w
              else fst (downloadModuleInStore E url
                          \<lparr>ModuleIdentifier = \<lparr>Author = a, Name = md_Name md\<rparr>,
                           Version = []\<rparr> w))"
proof -
  let ?mi = "\<lparr>Author = a, Name = md_Name md\<rparr>"
  let ?sid = "\<lparr>ModuleIdentifier = ?mi, Version = []\<rparr>"
  have mi: "getModuleIdentifier md = Ok ?mi"
    using authors by (rule getModuleIdentifier_Cons)
  have sid: "getStoreIdentifier md = Ok ?sid"
    using mi version by (simp add: getStoreIdentifier_def)
  obtain r w' where d: "downloadModuleInStore E url ?sid w = (r, w')"
    by (cases "downloadModuleInStore E url ?sid w")
  have keep: "vault_file w' = vault_file w" "vault_writes w' = vault_writes w"
    using download_keeps_vault [of E url ?sid w] d by simp_all
  have add: "AddModuleInVault E md module w' = (add_refused E w, w')" for module
    using AddModuleInVault_empty_version [OF version, of E module w']
      add_refused_cong [OF keep(1), of E] by simp
  show ?thesis
    using fetch sid mi d keep add
    by (cases r) (simp_all add: InstallModuleMURL_def)
qed

theorem C8_install_empty_version_witness:
  "md_Authors (example_metadata\<lparr>md_Version := []\<rparr>) = [''acme'']
   \<and> md_Version (example_metadata\<lparr>md_Version := []\<rparr>) = []
   \<and> fst (downloadModuleInStore env_no_version example_url
            \<lparr>ModuleIdentifier = widgets, Version = []\<rparr>
            (world_of (Json (vault_of [] [])) Map.empty)) = Ok ()
   \<and> fst (InstallModuleMURL env_no_version example_url
            (world_of (Json (vault_of [] [])) Map.empty)) = Error ''failed to mutate vault''
   \<and> vault_writes (snd (InstallModuleMURL env_no_version example_url
            (world_of (Json (vault_of [] [])) Map.empty))) = 0"
proof -
  let ?w = "world_of (Json (vault_of [] [])) Map.empty"
  have d: "fst (downloadModuleInStore env_no_version example_url
            \<lparr>ModuleIdentifier = \<lparr>Author = ''acme'',
               Name = md_Name (example_metadata\<lparr>md_Version := []\<rparr>)\<rparr>, Version = []\<rparr> ?w) = Ok ()"
    using download_no_version [of "Json (vault_of [] [])" Map.empty]
    by (simp add: no_version_fields widgets_def)
  have r: "add_refused env_no_version ?w = Error ''failed to mutate vault''"
    by (simp add: add_refused_def world_of_def)
  show ?thesis
    using d r no_version_fields
      C8_install_empty_version [OF fetch_no_version no_version_fields(1) no_version_fields(2),
        of ?w]
    by (simp add: widgets_def world_of_def)
qed

text \<open>
  The claim as stated fails: with an empty version the install returns
  \<open>failed to mutate vault\<close> after the archive has been extracted.
\<close>

theorem C8_empty_version_fails_after_extraction:
  "fetchRemoteMetadata env_no_version example_url = Ok (example_metadata\<lparr>md_Version := []\<rparr>)
   \<and> fst (InstallModuleMURL env_no_version example_url
            (world_of (Json (vault_of [] [])) Map.empty)) = Error ''failed to mutate vault''
   \<and> untar_calls (snd (InstallModuleMURL env_no_version example_url
            (world_of (Json (vault_of [] [])) Map.empty)))
       = [(''tarball'', ''^[^/]+/modules/foo(.*)'', ''/cfg/store/acme/widgets'')]"
proof -
  let ?w = "world_of (Json (vault_of [] [])) Map.empty"
  let ?md = "example_metadata\<lparr>md_Version := []\<rparr>"
  have mi: "getModuleIdentifier ?md = Ok widgets"
    using getModuleIdentifier_Cons [OF no_version_fields(1)]
    by (simp add: no_version_fields widgets_def)
  have sid: "getStoreIdentifier ?md = Ok \<lparr>ModuleIdentifier = widgets, Version = []\<rparr>"
    using mi by (simp add: getStoreIdentifier_def no_version_fields)
  show ?thesis
    using Install_after_download [OF fetch_no_version sid mi download_no_version,
        of "Json (vault_of [] [])" Map.empty]
      AddModuleInVault_empty_version [OF no_version_fields(2), of env_no_version]
    by (simp add: fetch_no_version add_refused_def world_of_def)
qed

subsection \<open>Downloading the archive\<close>

text \<open>
  C9, as amended. The claim: a response that is not a success makes the download fail
  with a network error, and its body is never extracted. In the code only the error of
  \<^verbatim>\<open>http.Get\<close> is checked: a transport failure is returned and nothing is extracted;
  on a response of any status code, when the pattern compiles, the body is extracted and
  the result is that of the extraction.
\<close>

theorem C9_download_checks_transport_only:
  assumes p: "parseGithubRawLink E url = Ok gp"
  shows "(http_Get E (getRepoArchiveLink gp) = Inl e \<longrightarrow>
            downloadModuleInStore E url sid w = (Error e, w))
       \<and> (http_Get E (getRepoArchiveLink gp) = Inr res \<longrightarrow>
            regexp_Compiles E (''^[^/]+/'' @ path gp @ ''(.*)'') \<longrightarrow>
            downloadModuleInStore E url sid w =
              UnTarGZ E (Body res) (''^[^/]+/'' @ path gp @ ''(.*)'') (si_toFilePath E sid) w
            \<and> untar_calls (snd (downloadModuleInStore E url sid w)) =
                untar_calls w @ [(Body res, ''^[^/]+/'' @ path gp @ ''(.*)'', si_toFilePath E sid)])"
  using p by (simp add: downloadModuleInStore_def Let_def UnTarGZ_def split: prod.splits option.splits)

theorem C9_download_checks_transport_only_witness:
  "parseGithubRawLink env_404 example_url = Ok example_path
   \<and> http_Get env_404 (getRepoArchiveLink example_path)
       = Inr \<lparr>StatusCode = 404, Body = ''404: Not Found''\<rparr>
   \<and> regexp_Compiles env_404 (''^[^/]+/'' @ path example_path @ ''(.*)'')
   \<and> downloadModuleInStore env_404 example_url widgets_1 (world_of NoFile Map.empty)
       = UnTarGZ env_404 ''404: Not Found'' (''^[^/]+/'' @ path example_path @ ''(.*)'')
           (si_toFilePath env_404 widgets_1) (world_of NoFile Map.empty)"
proof -
  have h: "http_Get env_404 (getRepoArchiveLink example_path)
       = Inr \<lparr>StatusCode = 404, Body = ''404: Not Found''\<rparr>"
    by (simp add: example_link archive_not_metadata env_404_fields)
  have r: "regexp_Compiles env_404 (''^[^/]+/'' @ path example_path @ ''(.*)'')"
    by (simp add: env_404_fields)
  show ?thesis
    using parse_404 h r
      C9_download_checks_transport_only [OF parse_404,
        where res = "\<lparr>StatusCode = 404, Body = ''404: Not Found''\<rparr>" and sid = widgets_1
          and w = "world_of NoFile Map.empty"]
    by simp
qed

text \<open>
  The claim as stated fails: the body of a response with status 404 is handed to the
  extraction, and the error returned is that of the extraction.
\<close>

theorem C9_extraction_on_404_body:
  "http_Get env_404 (getRepoArchiveLink example_path)
     = Inr \<lparr>StatusCode = 404, Body = ''404: Not Found''\<rparr>
   \<and> fst (downloadModuleInStore env_404 example_url widgets_1 (world_of NoFile Map.empty))
     = Error ''gzip: invalid header''
   \<and> untar_calls (snd (downloadModuleInStore env_404 example_url widgets_1
        (world_of NoFile Map.empty)))
     = [(''404: Not Found'', ''^[^/]+/modules/foo(.*)'', ''/cfg/store/acme/widgets/1.0.0'')]"
  by (simp add: downloadModuleInStore_def parse_404 example_link archive_not_metadata
      UnTarGZ_def Let_def env_404_fields example_path_path world_of_def
      si_toFilePath_def storeFolder_def example_Join_def widgets_1_def widgets_def)

end
